theory Spec2Isabelle
  imports Main
begin

section \<open>S3 to GCS replication service: a shallow embedding of \<^verbatim>\<open>app.py\<close>\<close>

text \<open>
  The theory embeds the class \<^verbatim>\<open>ReplicationService\<close> of \<^verbatim>\<open>src/app.py\<close>:
  \<^verbatim>\<open>_get_s3_metadata\<close>, \<^verbatim>\<open>_check_gcs_exists\<close>, \<^verbatim>\<open>_retry_with_backoff\<close>,
  \<^verbatim>\<open>_stream_upload\<close> and \<^verbatim>\<open>replicate\<close>. Isabelle identifiers cannot start with an
  underscore, so the leading underscore of the private methods is dropped, and
  \<^verbatim>\<open>replicate\<close> is called \<open>replicate_object\<close> because \<open>replicate\<close> is a list function of HOL.

  Python exceptions are values of the type \<open>exn\<close>; a method that may raise returns
  \<open>exn + 'a\<close> with \<open>Inl\<close> for the raised exception. All effects (the two object stores, the
  calls made to them, sleeping, the open read streams) live in an explicit \<open>world\<close> that every
  method takes and returns. Calls of \<^verbatim>\<open>logger\<close> only write a log line and are left out.
\<close>

subsection \<open>Exceptions\<close>

text \<open>
  The exception classes the source names or can meet. \<open>ClientError\<close> carries
  \<^verbatim>\<open>e.response['Error']['Code']\<close>; \<open>GoogleAPIError\<close> stands for the class and all its
  subclasses (NotFound, Forbidden, ServiceUnavailable, ...) and carries the subclass name.
  \<open>OtherException\<close> is any other subclass of \<^verbatim>\<open>Exception\<close>.
\<close>

datatype exn =
    ClientError string
  | BotoCoreError string
  | GoogleAPIError string
  | FileNotFoundError string
  | ValueError string
  | TypeError string
  | OtherException string

text \<open>
  The tuple of the \<^verbatim>\<open>except\<close> clause of \<^verbatim>\<open>_retry_with_backoff\<close> (line 99):
  \<^verbatim>\<open>except (ClientError, BotoCoreError, gcs_exceptions.GoogleAPIError)\<close>.
\<close>

fun retryable :: "exn \<Rightarrow> bool" where
  "retryable (ClientError c) = True"
| "retryable (BotoCoreError m) = True"
| "retryable (GoogleAPIError m) = True"
| "retryable e = False"

subsection \<open>The two object stores and the world\<close>

text \<open>
  An object of the source store as \<^verbatim>\<open>head_object\<close> and \<^verbatim>\<open>get_object\<close> report it. The
  source reads every field of the response with \<^verbatim>\<open>.get\<close> and a default, so each of them may
  be missing. \<open>ETag\<close> is the raw header value, quotes included.
\<close>

record s3_object =
  ETag :: "string option"
  ContentLength :: "int option"
  LastModified :: "nat option"
  ContentType :: "string option"
  Body :: string

text \<open>
  A blob of the destination bucket: its custom metadata (\<^verbatim>\<open>blob.metadata\<close>, a dictionary
  or \<^verbatim>\<open>None\<close>), its content type and its bytes.
\<close>

record gcs_blob =
  blob_metadata :: "(string \<times> string) list option"
  blob_content_type :: string
  blob_data :: string

text \<open>What the program does to the outside, in the order it does it.\<close>

datatype event =
    HeadObject string string
  | GetObject string string
  | BlobExists string
  | BlobReload string
  | UploadFromFile string
  | StreamClose
  | Sleep nat

text \<open>
  The world. \<open>faults\<close> decides which remote calls fail: the \<open>n\<close>-th remote call of a run
  (counted by \<open>remote_calls\<close>) raises \<open>e\<close> when \<open>faults n = Some e\<close>, and behaves as the
  store dictates when \<open>faults n = None\<close>. \<open>open_streams\<close> counts the read streams of
  \<^verbatim>\<open>get_object\<close> responses that have not been closed, \<open>now\<close> is what
  \<^verbatim>\<open>time.strftime('%Y-%m-%d %H:%M:%S')\<close> returns.
\<close>

record world =
  s3_objects :: "string \<times> string \<Rightarrow> s3_object option"
  gcs_blobs :: "string \<Rightarrow> gcs_blob option"
  faults :: "nat \<Rightarrow> exn option"
  remote_calls :: nat
  open_streams :: nat
  now :: string
  trace :: "event list"

type_synonym 'a io = "world \<Rightarrow> (exn + 'a) \<times> world"

text \<open>The module-level configuration read from the environment (lines 26 to 29).\<close>

record config =
  MAX_RETRIES :: int
  GCS_BUCKET_NAME :: string

subsection \<open>The client libraries\<close>

text \<open>
  The calls of boto3 and google-cloud-storage that the source makes. They are not code of
  the repository; they are modelled as the stores of the world plus the injected faults.
  \<open>remote\<close> records a remote call and reports the fault injected into it, if any.
\<close>

definition remote :: "event \<Rightarrow> world \<Rightarrow> exn option \<times> world" where
  "remote ev w =
     (faults w (remote_calls w),
      w\<lparr>remote_calls := Suc (remote_calls w), trace := trace w @ [ev]\<rparr>)"

text \<open>
  \<^verbatim>\<open>s3_client.head_object(Bucket=bucket, Key=key)\<close>: the response, or a \<open>ClientError\<close>
  with code \<^verbatim>\<open>'404'\<close> when there is no such object.
\<close>

definition head_object :: "string \<Rightarrow> string \<Rightarrow> s3_object io" where
  "head_object bucket key w =
     (case remote (HeadObject bucket key) w of
        (Some e, w') \<Rightarrow> (Inl e, w')
      | (None, w') \<Rightarrow>
          (case s3_objects w' (bucket, key) of
             None \<Rightarrow> (Inl (ClientError ''404''), w')
           | Some obj \<Rightarrow> (Inr obj, w')))"

text \<open>
  \<^verbatim>\<open>s3_client.get_object(Bucket=s3_bucket, Key=s3_key)\<close>: the response, whose
  \<^verbatim>\<open>Body\<close> is an open read stream, or a \<open>ClientError\<close> with code \<^verbatim>\<open>'NoSuchKey'\<close>.
\<close>

definition get_object :: "string \<Rightarrow> string \<Rightarrow> s3_object io" where
  "get_object bucket key w =
     (case remote (GetObject bucket key) w of
        (Some e, w') \<Rightarrow> (Inl e, w')
      | (None, w') \<Rightarrow>
          (case s3_objects w' (bucket, key) of
             None \<Rightarrow> (Inl (ClientError ''NoSuchKey''), w')
           | Some obj \<Rightarrow> (Inr obj, w'\<lparr>open_streams := Suc (open_streams w')\<rparr>)))"

text \<open>Leaving the \<^verbatim>\<open>with\<close> block closes the stream.\<close>

definition stream_close :: "world \<Rightarrow> world" where
  "stream_close w = w\<lparr>open_streams := open_streams w - 1, trace := trace w @ [StreamClose]\<rparr>"

text \<open>\<^verbatim>\<open>blob.exists()\<close>\<close>

definition blob_exists :: "string \<Rightarrow> bool io" where
  "blob_exists gcs_key w =
     (case remote (BlobExists gcs_key) w of
        (Some e, w') \<Rightarrow> (Inl e, w')
      | (None, w') \<Rightarrow> (Inr (gcs_blobs w' gcs_key \<noteq> None), w'))"

text \<open>\<^verbatim>\<open>blob.reload()\<close> followed by reading \<^verbatim>\<open>blob.metadata\<close>.\<close>

definition blob_reload :: "string \<Rightarrow> (string \<times> string) list option io" where
  "blob_reload gcs_key w =
     (case remote (BlobReload gcs_key) w of
        (Some e, w') \<Rightarrow> (Inl e, w')
      | (None, w') \<Rightarrow>
          (case gcs_blobs w' gcs_key of
             None \<Rightarrow> (Inl (GoogleAPIError ''NotFound''), w')
           | Some blob \<Rightarrow> (Inr (blob_metadata blob), w')))"

text \<open>
  \<^verbatim>\<open>blob.upload_from_file(s3_stream, content_type=..., timeout=300)\<close> on a blob whose
  \<^verbatim>\<open>metadata\<close> attribute has been set: the object is written with that metadata, or the
  call raises and the bucket is unchanged.
\<close>

definition upload_from_file ::
  "string \<Rightarrow> (string \<times> string) list \<Rightarrow> string \<Rightarrow> string \<Rightarrow> unit io" where
  "upload_from_file gcs_key metadata s3_stream content_type w =
     (case remote (UploadFromFile gcs_key) w of
        (Some e, w') \<Rightarrow> (Inl e, w')
      | (None, w') \<Rightarrow>
          (Inr (),
           w'\<lparr>gcs_blobs := (gcs_blobs w')(gcs_key \<mapsto>
                 \<lparr>blob_metadata = Some metadata,
                  blob_content_type = content_type,
                  blob_data = s3_stream\<rparr>)\<rparr>))"

text \<open>\<^verbatim>\<open>time.sleep(wait_time)\<close>\<close>

definition sleep :: "nat \<Rightarrow> world \<Rightarrow> world" where
  "sleep t w = w\<lparr>trace := trace w @ [Sleep t]\<rparr>"

subsection \<open>\<^verbatim>\<open>_get_s3_metadata\<close> (lines 62 to 73)\<close>

text \<open>\<^verbatim>\<open>s.strip('"')\<close>: all leading and all trailing double quotes are removed.\<close>

definition strip_quotes :: "string \<Rightarrow> string" where
  "strip_quotes s =
     rev (dropWhile (\<lambda>c. c = CHR 0x22) (rev (dropWhile (\<lambda>c. c = CHR 0x22) s)))"

record s3_metadata =
  etag :: string
  size_bytes :: int
  last_modified :: "nat option"

definition get_s3_metadata :: "string \<Rightarrow> string \<Rightarrow> s3_metadata io" where
  "get_s3_metadata bucket key w =
     (case head_object bucket key w of
        (Inr response, w') \<Rightarrow>
          (Inr \<lparr>etag = strip_quotes (case ETag response of None \<Rightarrow> '''' | Some t \<Rightarrow> t),
                size_bytes = (case ContentLength response of None \<Rightarrow> 0 | Some n \<Rightarrow> n),
                last_modified = LastModified response\<rparr>, w')
      | (Inl (ClientError code), w') \<Rightarrow>
          (if code = ''404''
           then (Inl (FileNotFoundError (''S3 object not found: s3://'' @ bucket @ ''/'' @ key)), w')
           else (Inl (ClientError code), w'))
      | (Inl e, w') \<Rightarrow> (Inl e, w'))"

subsection \<open>\<^verbatim>\<open>_check_gcs_exists\<close> (lines 75 to 93)\<close>

text \<open>
  \<^verbatim>\<open>stored_etag = blob.metadata.get('s3_etag') if blob.metadata else None\<close>: an empty
  dictionary is as false as \<^verbatim>\<open>None\<close>.
\<close>

definition stored_etag :: "(string \<times> string) list option \<Rightarrow> string option" where
  "stored_etag metadata =
     (case metadata of
        None \<Rightarrow> None
      | Some m \<Rightarrow> (if m = [] then None else map_of m ''s3_etag''))"

text \<open>The body of the \<^verbatim>\<open>try\<close> block.\<close>

definition check_gcs_exists_try :: "string \<Rightarrow> string \<Rightarrow> bool io" where
  "check_gcs_exists_try gcs_key s3_etag w =
     (case blob_exists gcs_key w of
        (Inl e, w1) \<Rightarrow> (Inl e, w1)
      | (Inr True, w1) \<Rightarrow>
          (case blob_reload gcs_key w1 of
             (Inl e, w2) \<Rightarrow> (Inl e, w2)
           | (Inr metadata, w2) \<Rightarrow>
               (if stored_etag metadata = Some s3_etag then (Inr True, w2) else (Inr False, w2)))
      | (Inr False, w1) \<Rightarrow> (Inr False, w1))"

text \<open>\<^verbatim>\<open>except Exception as e: ... return False\<close>\<close>

definition check_gcs_exists :: "string \<Rightarrow> string \<Rightarrow> bool io" where
  "check_gcs_exists gcs_key s3_etag w =
     (case check_gcs_exists_try gcs_key s3_etag w of
        (Inl e, w') \<Rightarrow> (Inr False, w')
      | (Inr b, w') \<Rightarrow> (Inr b, w'))"

subsection \<open>\<^verbatim>\<open>_retry_with_backoff\<close> (lines 95 to 108)\<close>

text \<open>\<^verbatim>\<open>range(n)\<close> is \<open>0, ..., n - 1\<close>, empty when \<open>n \<le> 0\<close>.\<close>

definition range_py :: "int \<Rightarrow> int list" where
  "range_py n = [0..n - 1]"

text \<open>
  The \<^verbatim>\<open>for\<close> loop over the remaining attempts. A call of \<open>func\<close> that returns ends the
  loop with its value; an exception outside the \<^verbatim>\<open>except\<close> tuple leaves the loop at once;
  one inside it is raised again on the last attempt and otherwise followed by
  \<^verbatim>\<open>time.sleep(2 ** attempt)\<close>. A loop that runs out of attempts falls off the end of the
  method, which returns \<^verbatim>\<open>None\<close>: the result \<open>Inr None\<close>.
\<close>

fun retry_loop :: "int \<Rightarrow> 'a io \<Rightarrow> int list \<Rightarrow> world \<Rightarrow> (exn + 'a option) \<times> world" where
  "retry_loop max_retries func [] w = (Inr None, w)"
| "retry_loop max_retries func (attempt # rest) w =
     (case func w of
        (Inr v, w') \<Rightarrow> (Inr (Some v), w')
      | (Inl e, w') \<Rightarrow>
          (if retryable e then
             (if attempt = max_retries - 1 then (Inl e, w')
              else retry_loop max_retries func rest (sleep (2 ^ nat attempt) w'))
           else (Inl e, w')))"

definition retry_with_backoff :: "int \<Rightarrow> 'a io \<Rightarrow> world \<Rightarrow> (exn + 'a option) \<times> world" where
  "retry_with_backoff max_retries func w = retry_loop max_retries func (range_py max_retries) w"

subsection \<open>\<^verbatim>\<open>_stream_upload\<close> (lines 110 to 140)\<close>

text \<open>
  The \<^verbatim>\<open>except Exception\<close> clause logs and raises the exception again, so every exception
  passes unchanged. The \<^verbatim>\<open>with\<close> block closes the stream whether the upload returns or
  raises.
\<close>

definition stream_upload :: "string \<Rightarrow> string \<Rightarrow> string \<Rightarrow> s3_metadata \<Rightarrow> bool io" where
  "stream_upload s3_bucket s3_key gcs_key s3_meta w =
     (case get_object s3_bucket s3_key w of
        (Inl e, w1) \<Rightarrow> (Inl e, w1)
      | (Inr s3_response, w1) \<Rightarrow>
          (let metadata = [(''s3_etag'', etag s3_meta),
                           (''s3_bucket'', s3_bucket),
                           (''s3_key'', s3_key),
                           (''replicated_at'', now w1)]
           in case upload_from_file gcs_key metadata (Body s3_response)
                     (case ContentType s3_response of
                        None \<Rightarrow> ''application/octet-stream'' | Some t \<Rightarrow> t) w1 of
                (Inl e, w2) \<Rightarrow> (Inl e, stream_close w2)
              | (Inr u, w2) \<Rightarrow> (Inr True, stream_close w2)))"

subsection \<open>\<^verbatim>\<open>replicate\<close> (lines 142 to 184)\<close>

text \<open>The values of the result dictionary.\<close>

datatype pyval = PyStr string | PyInt int

text \<open>\<^verbatim>\<open>gcs_key = f"{s3_bucket}/{s3_key}"\<close> (line 154)\<close>

definition gcs_key_of :: "string \<Rightarrow> string \<Rightarrow> string" where
  "gcs_key_of s3_bucket s3_key = s3_bucket @ ''/'' @ s3_key"

definition skipped_result :: "config \<Rightarrow> string \<Rightarrow> (string \<times> pyval) list" where
  "skipped_result cfg gcs_key =
     [(''status'', PyStr ''skipped''),
      (''message'', PyStr ''File already exists with same content''),
      (''gcs_path'', PyStr (''gs://'' @ GCS_BUCKET_NAME cfg @ ''/'' @ gcs_key))]"

definition success_result ::
  "config \<Rightarrow> string \<Rightarrow> string \<Rightarrow> string \<Rightarrow> s3_metadata \<Rightarrow> (string \<times> pyval) list" where
  "success_result cfg s3_bucket s3_key gcs_key s3_meta =
     [(''status'', PyStr ''success''),
      (''message'', PyStr ''File replicated successfully''),
      (''s3_path'', PyStr (''s3://'' @ s3_bucket @ ''/'' @ s3_key)),
      (''gcs_path'', PyStr (''gs://'' @ GCS_BUCKET_NAME cfg @ ''/'' @ gcs_key)),
      (''size_bytes'', PyInt (size_bytes s3_meta))]"

text \<open>
  The two \<^verbatim>\<open>except\<close> clauses of \<^verbatim>\<open>replicate\<close>: a \<open>FileNotFoundError\<close> becomes
  \<^verbatim>\<open>ValueError(str(e))\<close>, every other exception is raised again.
\<close>

fun replicate_except :: "exn \<Rightarrow> exn" where
  "replicate_except (FileNotFoundError m) = ValueError m"
| "replicate_except e = e"

text \<open>
  When the retry wrapper returns \<^verbatim>\<open>None\<close> for the metadata, \<^verbatim>\<open>s3_metadata['size']\<close>
  (line 152) raises a \<open>TypeError\<close> with the message
  \<^verbatim>\<open>'NoneType' object is not subscriptable\<close>. The value the wrapper returns for the upload is
  not used.
\<close>

definition none_not_subscriptable :: string where
  "none_not_subscriptable = [CHR 0x27] @ ''NoneType'' @ [CHR 0x27] @ '' object is not subscriptable''"

definition replicate_object :: "config \<Rightarrow> string \<Rightarrow> string \<Rightarrow> (string \<times> pyval) list io" where
  "replicate_object cfg s3_bucket s3_key w =
     (case retry_with_backoff (MAX_RETRIES cfg) (get_s3_metadata s3_bucket s3_key) w of
        (Inl e, w1) \<Rightarrow> (Inl (replicate_except e), w1)
      | (Inr None, w1) \<Rightarrow>
          (Inl (replicate_except (TypeError none_not_subscriptable)), w1)
      | (Inr (Some s3_meta), w1) \<Rightarrow>
          (let gcs_key = gcs_key_of s3_bucket s3_key
           in case check_gcs_exists gcs_key (etag s3_meta) w1 of
                (Inl e, w2) \<Rightarrow> (Inl (replicate_except e), w2)
              | (Inr True, w2) \<Rightarrow> (Inr (skipped_result cfg gcs_key), w2)
              | (Inr False, w2) \<Rightarrow>
                  (case retry_with_backoff (MAX_RETRIES cfg)
                          (stream_upload s3_bucket s3_key gcs_key s3_meta) w2 of
                     (Inl e, w3) \<Rightarrow> (Inl (replicate_except e), w3)
                   | (Inr r, w3) \<Rightarrow>
                       (Inr (success_result cfg s3_bucket s3_key gcs_key s3_meta), w3))))"

subsection \<open>Attempts of the retry wrapper\<close>

text \<open>
  \<open>attempt_world func a w i\<close> is the world in which attempt number \<open>a + i\<close> of the loop
  starts, when attempt number \<open>a\<close> started in \<open>w\<close> and the \<open>i\<close> attempts \<open>a, ..., a + i - 1\<close>
  all raised an exception that was retried: each of them ran \<open>func\<close> and then slept.
\<close>

fun attempt_world :: "'a io \<Rightarrow> nat \<Rightarrow> world \<Rightarrow> nat \<Rightarrow> world" where
  "attempt_world func a w 0 = w"
| "attempt_world func a w (Suc i) = sleep (2 ^ (a + i)) (snd (func (attempt_world func a w i)))"

subsection \<open>An example run\<close>

text \<open>
  The configuration with the default of three attempts, and a world with one source object,
  \<^verbatim>\<open>s3://raw-logs/2024/01/01.log\<close> with the identity tag \<^verbatim>\<open>"abc123"\<close> and 4096 bytes
  declared, an empty destination bucket and no failing call.
\<close>

definition example_config :: config where
  "example_config = \<lparr>MAX_RETRIES = 3, GCS_BUCKET_NAME = ''replica''\<rparr>"

definition example_object :: s3_object where
  "example_object =
     \<lparr>ETag = Some ([CHR 0x22] @ ''abc123'' @ [CHR 0x22]), ContentLength = Some 4096,
      LastModified = Some 1704067200, ContentType = None, Body = ''log line''\<rparr>"

definition example_world :: world where
  "example_world =
     \<lparr>s3_objects = [(''raw-logs'', ''2024/01/01.log'') \<mapsto> example_object],
      gcs_blobs = Map.empty,
      faults = (\<lambda>n. None),
      remote_calls = 0,
      open_streams = 0,
      now = ''2024-01-02 03:04:05'',
      trace = []\<rparr>"

text \<open>The same world when every remote call raises \<open>e\<close>.\<close>

definition failing_world :: "exn \<Rightarrow> world" where
  "failing_world e = example_world\<lparr>faults := (\<lambda>n. Some e)\<rparr>"

text \<open>The same world when only the second remote call fails.\<close>

definition upload_fails_world :: world where
  "upload_fails_world =
     example_world\<lparr>faults :=
       (\<lambda>n. if n = 1 then Some (GoogleAPIError ''ServiceUnavailable'') else None)\<rparr>"

text \<open>The example world after one replication of the object.\<close>

definition replicated_world :: world where
  "replicated_world =
     snd (replicate_object example_config ''raw-logs'' ''2024/01/01.log'' example_world)"

text \<open>The blob that this replication writes.\<close>

definition replicated_blob :: gcs_blob where
  "replicated_blob =
     \<lparr>blob_metadata = Some [(''s3_etag'', ''abc123''), (''s3_bucket'', ''raw-logs''),
                            (''s3_key'', ''2024/01/01.log''),
                            (''replicated_at'', ''2024-01-02 03:04:05'')],
      blob_content_type = ''application/octet-stream'',
      blob_data = ''log line''\<rparr>"

section \<open>Auxiliary facts\<close>

lemmas eval_defs = example_config_def example_object_def example_world_def failing_world_def
  upload_fails_world_def remote_def head_object_def get_object_def stream_close_def blob_exists_def
  blob_reload_def upload_from_file_def sleep_def strip_quotes_def get_s3_metadata_def stored_etag_def
  check_gcs_exists_try_def check_gcs_exists_def retry_with_backoff_def range_py_def stream_upload_def
  gcs_key_of_def skipped_result_def success_result_def replicate_object_def Let_def

lemmas upto3 = upto_rec1 [of 0] upto_rec1 [of 1] upto_rec1 [of 2]

subsection \<open>The retry wrapper\<close>

lemma range_py_nonpos: "n \<le> 0 \<Longrightarrow> range_py n = []"
  by (simp add: range_py_def)

lemma retry_unfold:
  "0 < max_retries \<Longrightarrow>
   retry_with_backoff max_retries func w =
     retry_loop max_retries func (0 # [1..max_retries - 1]) w"
  by (simp add: retry_with_backoff_def range_py_def upto_rec1 [of 0])


lemma retry_first_not_retryable:
  "0 < max_retries \<Longrightarrow> func w = (Inl e, w') \<Longrightarrow> \<not> retryable e \<Longrightarrow>
   retry_with_backoff max_retries func w = (Inl e, w')"
  by (simp add: retry_unfold)

lemma attempt_world_shift:
  "attempt_world func a w (Suc i) = attempt_world func (Suc a) (sleep (2 ^ a) (snd (func w))) i"
  by (induction i) simp_all

text \<open>
  When the attempts \<open>a, ..., a + n\<close> all raise an exception of the \<^verbatim>\<open>except\<close> tuple and
  \<open>a + n\<close> is the last attempt, the loop ends with what attempt \<open>a + n\<close> raised.
\<close>

lemma retry_loop_all_fail:
  "\<forall>i<Suc n. \<exists>e. fst (func (attempt_world func a w i)) = Inl e \<and> retryable e \<Longrightarrow>
   \<exists>e. fst (func (attempt_world func a w n)) = Inl e \<and>
       retry_loop (int a + int n + 1) func [int a..int a + int n] w =
         (Inl e, snd (func (attempt_world func a w n)))"
proof (induction n arbitrary: a w)
  case 0
  then obtain e where e: "fst (func w) = Inl e" "retryable e" by auto
  then show ?case by (cases "func w") (simp add: upto_rec1)
next
  case (Suc n)
  from Suc.prems obtain e where e: "fst (func w) = Inl e" "retryable e" by fastforce
  let ?w1 = "sleep (2 ^ a) (snd (func w))"
  have "\<forall>i<Suc n. \<exists>e. fst (func (attempt_world func (Suc a) ?w1 i)) = Inl e \<and> retryable e"
  proof (intro allI impI)
    fix i assume "i < Suc n"
    then have "Suc i < Suc (Suc n)" by simp
    with Suc.prems have "\<exists>e. fst (func (attempt_world func a w (Suc i))) = Inl e \<and> retryable e"
      by blast
    then show "\<exists>e. fst (func (attempt_world func (Suc a) ?w1 i)) = Inl e \<and> retryable e"
      by (simp only: attempt_world_shift)
  qed
  from Suc.IH [OF this] obtain e' where
    e': "fst (func (attempt_world func (Suc a) ?w1 n)) = Inl e'"
        "retry_loop (int (Suc a) + int n + 1) func [int (Suc a)..int (Suc a) + int n] ?w1 =
           (Inl e', snd (func (attempt_world func (Suc a) ?w1 n)))"
    by blast
  have up: "[int a..int a + int (Suc n)] = int a # [int (Suc a)..int (Suc a) + int n]"
    by (simp add: upto_rec1 [of "int a"] add.commute add.left_commute)
  have "retry_loop (int a + int (Suc n) + 1) func [int a..int a + int (Suc n)] w =
        retry_loop (int (Suc a) + int n + 1) func [int (Suc a)..int (Suc a) + int n] ?w1"
    unfolding up using e by (cases "func w") (simp add: add.commute add.left_commute)
  with e' show ?case by (simp only: attempt_world_shift) simp
qed

lemma attempt_world_trace:
  "\<forall>i<n. trace (snd (func (attempt_world func a w i))) =
            trace (attempt_world func a w i) @ [ev] \<Longrightarrow>
   trace (attempt_world func a w n) =
     trace w @ concat (map (\<lambda>i. [ev, Sleep (2 ^ (a + i))]) [0..<n])"
  by (induction n) (simp_all add: sleep_def)

subsection \<open>The source inspection\<close>

lemma get_s3_metadata_missing:
  "faults w (remote_calls w) = None \<Longrightarrow> s3_objects w (bucket, key) = None \<Longrightarrow>
   get_s3_metadata bucket key w =
     (Inl (FileNotFoundError (''S3 object not found: s3://'' @ bucket @ ''/'' @ key)),
      w\<lparr>remote_calls := Suc (remote_calls w), trace := trace w @ [HeadObject bucket key]\<rparr>)"
  by (simp add: get_s3_metadata_def head_object_def remote_def)





subsection \<open>The existence check\<close>

lemma check_gcs_exists_fault:
  "faults w (remote_calls w) = Some e \<Longrightarrow>
   check_gcs_exists gcs_key s3_etag w = (Inr False, snd (remote (BlobExists gcs_key) w))"
  by (simp add: check_gcs_exists_def check_gcs_exists_try_def blob_exists_def remote_def)

lemma check_gcs_exists_absent:
  "faults w (remote_calls w) = None \<Longrightarrow> gcs_blobs w gcs_key = None \<Longrightarrow>
   check_gcs_exists gcs_key s3_etag w = (Inr False, snd (remote (BlobExists gcs_key) w))"
  by (simp add: check_gcs_exists_def check_gcs_exists_try_def blob_exists_def remote_def)

lemma check_gcs_exists_reload_fault:
  "faults w (remote_calls w) = None \<Longrightarrow> gcs_blobs w gcs_key = Some blob \<Longrightarrow>
   faults w (Suc (remote_calls w)) = Some e \<Longrightarrow>
   check_gcs_exists gcs_key s3_etag w =
     (Inr False, snd (remote (BlobReload gcs_key) (snd (remote (BlobExists gcs_key) w))))"
  by (simp add: check_gcs_exists_def check_gcs_exists_try_def blob_exists_def blob_reload_def
        remote_def)

lemma check_gcs_exists_present:
  "faults w (remote_calls w) = None \<Longrightarrow> gcs_blobs w gcs_key = Some blob \<Longrightarrow>
   faults w (Suc (remote_calls w)) = None \<Longrightarrow>
   check_gcs_exists gcs_key s3_etag w =
     (Inr (stored_etag (blob_metadata blob) = Some s3_etag),
      snd (remote (BlobReload gcs_key) (snd (remote (BlobExists gcs_key) w))))"
  by (simp add: check_gcs_exists_def check_gcs_exists_try_def blob_exists_def blob_reload_def
        remote_def)

subsection \<open>The stream transfer\<close>

lemma stream_upload_after_get:
  "get_object s3_bucket s3_key w = (Inr response, w1) \<Longrightarrow>
   stream_upload s3_bucket s3_key gcs_key s3_meta w =
     (case upload_from_file gcs_key
             [(''s3_etag'', etag s3_meta), (''s3_bucket'', s3_bucket), (''s3_key'', s3_key),
              (''replicated_at'', now w1)]
             (Body response)
             (case ContentType response of None \<Rightarrow> ''application/octet-stream'' | Some t \<Rightarrow> t)
             w1 of
        (Inl e, w2) \<Rightarrow> (Inl e, stream_close w2)
      | (Inr u, w2) \<Rightarrow> (Inr True, stream_close w2))"
  by (simp add: stream_upload_def)

lemma stream_upload_get_fails:
  "get_object s3_bucket s3_key w = (Inl e, w1) \<Longrightarrow>
   stream_upload s3_bucket s3_key gcs_key s3_meta w = (Inl e, w1)"
  by (simp add: stream_upload_def)

lemma upload_from_file_open_streams:
  "open_streams (snd (upload_from_file gcs_key metadata s content_type w)) = open_streams w"
  by (cases "faults w (remote_calls w)") (simp_all add: upload_from_file_def remote_def)

lemma get_object_open_streams:
  "get_object s3_bucket s3_key w = (r, w1) \<Longrightarrow>
   open_streams w1 = (case r of Inl e \<Rightarrow> open_streams w | Inr obj \<Rightarrow> Suc (open_streams w))"
  by (cases "faults w (remote_calls w)"; cases "s3_objects w (s3_bucket, s3_key)")
     (auto simp: get_object_def remote_def)

text \<open>A transfer that returns has read the source object and written the blob.\<close>

lemma stream_upload_returns:
  assumes "stream_upload s3_bucket s3_key gcs_key s3_meta w = (Inr r, w')"
  shows "\<exists>obj. s3_objects w (s3_bucket, s3_key) = Some obj \<and>
           gcs_blobs w' gcs_key =
             Some \<lparr>blob_metadata = Some [(''s3_etag'', etag s3_meta), (''s3_bucket'', s3_bucket),
                                        (''s3_key'', s3_key), (''replicated_at'', now w)],
                   blob_content_type = (case ContentType obj of
                                          None \<Rightarrow> ''application/octet-stream'' | Some t \<Rightarrow> t),
                   blob_data = Body obj\<rparr> \<and>
           remote_calls w' = remote_calls w + 2 \<and> faults w' = faults w"
proof (cases "faults w (remote_calls w)")
  case (Some e)
  with assms show ?thesis by (simp add: stream_upload_def get_object_def remote_def)
next
  case no_fault: None
  show ?thesis
  proof (cases "s3_objects w (s3_bucket, s3_key)")
    case None
    with assms no_fault show ?thesis by (simp add: stream_upload_def get_object_def remote_def)
  next
    case (Some obj)
    show ?thesis
    proof (cases "faults w (Suc (remote_calls w))")
      case None
      with assms no_fault Some show ?thesis
        by (auto simp: stream_upload_def get_object_def remote_def upload_from_file_def
              stream_close_def Let_def)
    next
      case fault: (Some e)
      with assms no_fault Some show ?thesis
        by (simp add: stream_upload_def get_object_def remote_def upload_from_file_def
              stream_close_def Let_def)
    qed
  qed
qed

subsection \<open>The orchestrator\<close>





text \<open>A missing source object: one \<^verbatim>\<open>head_object\<close> call, then the exception.\<close>

lemma replicate_missing_source:
  assumes "0 < MAX_RETRIES cfg"
    and "faults w (remote_calls w) = None"
    and "s3_objects w (s3_bucket, s3_key) = None"
  shows "retry_with_backoff (MAX_RETRIES cfg) (get_s3_metadata s3_bucket s3_key) w =
           (Inl (FileNotFoundError (''S3 object not found: s3://'' @ s3_bucket @ ''/'' @ s3_key)),
            w\<lparr>remote_calls := Suc (remote_calls w),
              trace := trace w @ [HeadObject s3_bucket s3_key]\<rparr>) \<and>
         replicate_object cfg s3_bucket s3_key w =
           (Inl (ValueError (''S3 object not found: s3://'' @ s3_bucket @ ''/'' @ s3_key)),
            w\<lparr>remote_calls := Suc (remote_calls w),
              trace := trace w @ [HeadObject s3_bucket s3_key]\<rparr>)"
proof -
  let ?e = "FileNotFoundError (''S3 object not found: s3://'' @ s3_bucket @ ''/'' @ s3_key)"
  let ?w1 = "w\<lparr>remote_calls := Suc (remote_calls w),
               trace := trace w @ [HeadObject s3_bucket s3_key]\<rparr>"
  have g: "get_s3_metadata s3_bucket s3_key w = (Inl ?e, ?w1)"
    using assms(2,3) by (rule get_s3_metadata_missing)
  have n: "\<not> retryable ?e" by simp
  have r: "retry_with_backoff (MAX_RETRIES cfg) (get_s3_metadata s3_bucket s3_key) w = (Inl ?e, ?w1)"
    using assms(1) g n by (rule retry_first_not_retryable)
  then have "replicate_object cfg s3_bucket s3_key w =
      (Inl (ValueError (''S3 object not found: s3://'' @ s3_bucket @ ''/'' @ s3_key)), ?w1)"
    by (simp add: replicate_object_def)
  with r show ?thesis by simp
qed




subsection \<open>The example run\<close>

lemma replicated_world_eq:
  "replicated_world =
     \<lparr>s3_objects = [(''raw-logs'', ''2024/01/01.log'') \<mapsto> example_object],
      gcs_blobs = [''raw-logs/2024/01/01.log'' \<mapsto> replicated_blob],
      faults = (\<lambda>n. None),
      remote_calls = 4,
      open_streams = 0,
      now = ''2024-01-02 03:04:05'',
      trace = [HeadObject ''raw-logs'' ''2024/01/01.log'', BlobExists ''raw-logs/2024/01/01.log'',
               GetObject ''raw-logs'' ''2024/01/01.log'', UploadFromFile ''raw-logs/2024/01/01.log'',
               StreamClose]\<rparr>"
  by (simp add: replicated_world_def replicated_blob_def eval_defs upto3)

lemma takeWhile_slash:
  "CHR ''/'' \<notin> set b \<Longrightarrow> takeWhile (\<lambda>c. c \<noteq> CHR ''/'') (b @ CHR ''/'' # k) = b"
  by (induction b) auto

section \<open>The retry wrapper\<close>

text \<open>
  Claim C10. When the configured maximum retry count is zero or negative, the retry wrapper
  returns \<^verbatim>\<open>None\<close> without calling the wrapped operation: whatever the operation is, the
  result is \<open>Inr None\<close>, not an exception, and the world is the one the wrapper started in.
\<close>

theorem retry_no_attempts:
  "max_retries \<le> 0 \<Longrightarrow> retry_with_backoff max_retries func w = (Inr None, w)"
  by (simp add: retry_with_backoff_def range_py_nonpos)

theorem retry_no_attempts_witness:
  "(0::int) \<le> 0 \<and>
   fst (retry_with_backoff 0 (get_s3_metadata ''raw-logs'' ''2024/01/01.log'') example_world) =
     Inr None \<and>
   trace (snd (retry_with_backoff 0 (get_s3_metadata ''raw-logs'' ''2024/01/01.log'')
                 example_world)) = []"
  using retry_no_attempts [of 0 "get_s3_metadata ''raw-logs'' ''2024/01/01.log''" example_world]
  by (simp add: example_world_def)

text \<open>
  Claim C3. Let the operation raise an exception of the \<^verbatim>\<open>except\<close> tuple on every
  attempt, with \<open>max_retries\<close> at least one. Then the operation is called exactly
  \<open>max_retries\<close> times, each call but the last followed by a sleep of \<open>2 ^ attempt\<close>, and
  the wrapper raises what the last call raised, unchanged, in the world that call left.
  When each call leaves the one event \<open>ev\<close> in the trace, the trace of the run reads \<open>ev\<close>,
  sleep \<open>2 ^ 0\<close>, \<open>ev\<close>, sleep \<open>2 ^ 1\<close>, ..., \<open>ev\<close>: \<open>max_retries\<close> calls with
  \<open>max_retries - 1\<close> sleeps between them, and the sleeps increase strictly.
\<close>

theorem retry_exhausts:
  assumes "0 < max_retries"
    and "\<forall>i<nat max_retries. \<exists>e. fst (func (attempt_world func 0 w i)) = Inl e \<and> retryable e"
  shows "(\<exists>e. fst (func (attempt_world func 0 w (nat max_retries - 1))) = Inl e \<and>
              retry_with_backoff max_retries func w =
                (Inl e, snd (func (attempt_world func 0 w (nat max_retries - 1))))) \<and>
         ((\<forall>i<nat max_retries. trace (snd (func (attempt_world func 0 w i))) =
                                 trace (attempt_world func 0 w i) @ [ev]) \<longrightarrow>
          trace (snd (retry_with_backoff max_retries func w)) =
            trace w @ concat (map (\<lambda>i. [ev, Sleep (2 ^ i)]) [0..<nat max_retries - 1]) @ [ev]) \<and>
         sorted_wrt (<) (map (\<lambda>i. (2::nat) ^ i) [0..<nat max_retries - 1])"
proof -
  define n where "n = nat max_retries - 1"
  have n: "max_retries = int n + 1" "nat max_retries = Suc n"
    using assms(1) by (simp_all add: n_def)
  from assms(2) n have "\<forall>i<Suc n. \<exists>e. fst (func (attempt_world func 0 w i)) = Inl e \<and> retryable e"
    by simp
  from retry_loop_all_fail [OF this] obtain e where
    e: "fst (func (attempt_world func 0 w n)) = Inl e"
       "retry_loop (int n + 1) func [0..int n] w = (Inl e, snd (func (attempt_world func 0 w n)))"
    by auto
  have r: "retry_with_backoff max_retries func w = (Inl e, snd (func (attempt_world func 0 w n)))"
    using e(2) n by (simp add: retry_with_backoff_def range_py_def)
  have calls: "trace (snd (retry_with_backoff max_retries func w)) =
            trace w @ concat (map (\<lambda>i. [ev, Sleep (2 ^ i)]) [0..<n]) @ [ev]"
    if logs: "\<forall>i<Suc n. trace (snd (func (attempt_world func 0 w i))) =
                          trace (attempt_world func 0 w i) @ [ev]"
  proof -
    from logs have "\<forall>i<n. trace (snd (func (attempt_world func 0 w i))) =
                          trace (attempt_world func 0 w i) @ [ev]"
      by simp
    from attempt_world_trace [OF this]
    have "trace (attempt_world func 0 w n) =
            trace w @ concat (map (\<lambda>i. [ev, Sleep (2 ^ i)]) [0..<n])"
      by simp
    moreover from logs
    have "trace (snd (func (attempt_world func 0 w n))) = trace (attempt_world func 0 w n) @ [ev]"
      by simp
    ultimately show ?thesis using r by simp
  qed
  have "sorted_wrt (<) (map (\<lambda>i. (2::nat) ^ i) [0..<n])"
    by (simp add: sorted_wrt_map sorted_wrt_upt)
  with e r calls n show ?thesis by simp
qed

theorem retry_exhausts_witness:
  "(0::int) < 3 \<and>
   fst (retry_with_backoff 3 (get_s3_metadata ''raw-logs'' ''2024/01/01.log'')
          (failing_world (ClientError ''503''))) = Inl (ClientError ''503'') \<and>
   trace (snd (retry_with_backoff 3 (get_s3_metadata ''raw-logs'' ''2024/01/01.log'')
          (failing_world (ClientError ''503'')))) =
     [HeadObject ''raw-logs'' ''2024/01/01.log'', Sleep 1,
      HeadObject ''raw-logs'' ''2024/01/01.log'', Sleep 2,
      HeadObject ''raw-logs'' ''2024/01/01.log'']"
proof -
  let ?f = "get_s3_metadata ''raw-logs'' ''2024/01/01.log''"
  let ?w = "failing_world (ClientError ''503'')"
  let ?ev = "HeadObject ''raw-logs'' ''2024/01/01.log''"
  have three: "nat 3 = Suc (Suc (Suc 0))" by simp
  have h1: "(0::int) < 3" by simp
  have h2: "\<forall>i<nat 3. \<exists>e. fst (?f (attempt_world ?f 0 ?w i)) = Inl e \<and> retryable e"
    unfolding three by (simp add: All_less_Suc eval_defs)
  have h3: "\<forall>i<nat 3. trace (snd (?f (attempt_world ?f 0 ?w i))) =
              trace (attempt_world ?f 0 ?w i) @ [?ev]"
    unfolding three by (simp add: All_less_Suc eval_defs)
  have last: "fst (?f (attempt_world ?f 0 ?w (nat 3 - 1))) = Inl (ClientError ''503'')"
    unfolding three by (simp add: eval_defs)
  from retry_exhausts [OF h1 h2, of ?ev] h3
  have "(\<exists>e. fst (?f (attempt_world ?f 0 ?w (nat 3 - 1))) = Inl e \<and>
             fst (retry_with_backoff 3 ?f ?w) = Inl e) \<and>
        trace (snd (retry_with_backoff 3 ?f ?w)) =
          trace ?w @ concat (map (\<lambda>i. [?ev, Sleep (2 ^ i)]) [0..<nat 3 - 1]) @ [?ev]"
    by auto
  with last h1 show ?thesis
    unfolding three by (simp add: failing_world_def example_world_def)
qed

text \<open>
  Claim C2, as the code has it. The wrapper tells exceptions apart by their class only. An
  exception outside the \<^verbatim>\<open>except\<close> tuple (\<open>ClientError\<close>, \<open>BotoCoreError\<close>,
  \<open>GoogleAPIError\<close>) passes through at once: the operation has been called once and is not
  called again.
\<close>

theorem not_retryable_raised_at_once:
  "0 < max_retries \<Longrightarrow> func w = (Inl e, w') \<Longrightarrow> \<not> retryable e \<Longrightarrow>
   retry_with_backoff max_retries func w = (Inl e, w')"
  by (simp add: retry_unfold)

theorem not_retryable_raised_at_once_witness:
  "(0::int) < 3 \<and>
   \<not> retryable (FileNotFoundError ''S3 object not found: s3://raw-logs/missing.log'') \<and>
   fst (retry_with_backoff 3 (get_s3_metadata ''raw-logs'' ''missing.log'') example_world) =
     Inl (FileNotFoundError ''S3 object not found: s3://raw-logs/missing.log'') \<and>
   trace (snd (retry_with_backoff 3 (get_s3_metadata ''raw-logs'' ''missing.log'') example_world)) =
     [HeadObject ''raw-logs'' ''missing.log'']"
  using not_retryable_raised_at_once [of 3 "get_s3_metadata ''raw-logs'' ''missing.log''"
      example_world "FileNotFoundError ''S3 object not found: s3://raw-logs/missing.log''"
      "snd (get_s3_metadata ''raw-logs'' ''missing.log'' example_world)"]
  by (simp add: eval_defs upto3)

text \<open>
  Claim C2, as it is stated, fails: a permission failure of the source store reaches the
  wrapper as a \<open>ClientError\<close> (code \<^verbatim>\<open>'403'\<close> for \<^verbatim>\<open>head_object\<close>), which is in the
  \<^verbatim>\<open>except\<close> tuple. With three attempts configured the inspection is called three times,
  with sleeps of one and two seconds in between.
\<close>

theorem permission_denied_is_retried:
  "fst (head_object ''raw-logs'' ''2024/01/01.log'' (failing_world (ClientError ''403''))) =
     Inl (ClientError ''403'') \<and>
   trace (snd (retry_with_backoff 3 (get_s3_metadata ''raw-logs'' ''2024/01/01.log'')
          (failing_world (ClientError ''403'')))) =
     [HeadObject ''raw-logs'' ''2024/01/01.log'', Sleep 1,
      HeadObject ''raw-logs'' ''2024/01/01.log'', Sleep 2,
      HeadObject ''raw-logs'' ''2024/01/01.log'']"
  by (simp add: eval_defs upto3)

section \<open>The source inspection and the outcome of a replication\<close>

text \<open>
  Claim C5. When the source object does not exist (and the request itself goes through, with
  at least one attempt configured), the inspection raises \<open>FileNotFoundError\<close>, which is
  not in the \<^verbatim>\<open>except\<close> tuple of the retry wrapper: the wrapper raises it after a single
  \<^verbatim>\<open>head_object\<close> call and no sleep, and the replication ends there with the not-found
  outcome, a \<open>ValueError\<close> carrying the message of the \<open>FileNotFoundError\<close>.
\<close>

theorem missing_source_not_found:
  assumes "0 < MAX_RETRIES cfg"
    and "faults w (remote_calls w) = None"
    and "s3_objects w (s3_bucket, s3_key) = None"
  shows "\<not> retryable (FileNotFoundError (''S3 object not found: s3://'' @ s3_bucket @ ''/'' @ s3_key)) \<and>
         retry_with_backoff (MAX_RETRIES cfg) (get_s3_metadata s3_bucket s3_key) w =
           (Inl (FileNotFoundError (''S3 object not found: s3://'' @ s3_bucket @ ''/'' @ s3_key)),
            w\<lparr>remote_calls := Suc (remote_calls w),
              trace := trace w @ [HeadObject s3_bucket s3_key]\<rparr>) \<and>
         replicate_object cfg s3_bucket s3_key w =
           (Inl (ValueError (''S3 object not found: s3://'' @ s3_bucket @ ''/'' @ s3_key)),
            w\<lparr>remote_calls := Suc (remote_calls w),
              trace := trace w @ [HeadObject s3_bucket s3_key]\<rparr>)"
  using replicate_missing_source [OF assms] by simp

theorem missing_source_not_found_witness:
  "0 < MAX_RETRIES example_config \<and>
   faults example_world (remote_calls example_world) = None \<and>
   s3_objects example_world (''raw-logs'', ''missing.log'') = None \<and>
   fst (replicate_object example_config ''raw-logs'' ''missing.log'' example_world) =
     Inl (ValueError ''S3 object not found: s3://raw-logs/missing.log'') \<and>
   trace (snd (replicate_object example_config ''raw-logs'' ''missing.log'' example_world)) =
     [HeadObject ''raw-logs'' ''missing.log'']"
proof -
  have h1: "0 < MAX_RETRIES example_config" by (simp add: example_config_def)
  have h2: "faults example_world (remote_calls example_world) = None"
    by (simp add: example_world_def)
  have h3: "s3_objects example_world (''raw-logs'', ''missing.log'') = None"
    by (simp add: example_world_def)
  from missing_source_not_found [OF h1 h2 h3] h1 h2 h3 show ?thesis
    by (simp add: example_world_def)
qed




section \<open>The existence check and idempotence\<close>

text \<open>
  Claim C4. The existence check never raises. It returns true exactly when both of its
  remote calls go through, the destination object exists, and the \<^verbatim>\<open>s3_etag\<close> entry of its
  stored metadata equals the expected tag; so it returns false when the object is absent,
  when the tags differ (or no tag is stored), and when \<^verbatim>\<open>blob.exists()\<close> or
  \<^verbatim>\<open>blob.reload()\<close> raises.
\<close>

theorem check_gcs_exists_iff:
  "\<exists>b w'. check_gcs_exists gcs_key s3_etag w = (Inr b, w') \<and>
     (b \<longleftrightarrow> faults w (remote_calls w) = None \<and> faults w (Suc (remote_calls w)) = None \<and>
            (\<exists>blob. gcs_blobs w gcs_key = Some blob \<and>
                    stored_etag (blob_metadata blob) = Some s3_etag))"
proof (cases "faults w (remote_calls w)")
  case (Some e)
  then show ?thesis by (auto simp: check_gcs_exists_fault)
next
  case no_fault: None
  show ?thesis
  proof (cases "gcs_blobs w gcs_key")
    case None
    with no_fault show ?thesis by (auto simp: check_gcs_exists_absent)
  next
    case (Some blob)
    show ?thesis
    proof (cases "faults w (Suc (remote_calls w))")
      case None
      with no_fault Some show ?thesis by (auto simp: check_gcs_exists_present)
    next
      case (Some e)
      with no_fault \<open>gcs_blobs w gcs_key = Some blob\<close> show ?thesis
        by (auto simp: check_gcs_exists_reload_fault)
    qed
  qed
qed

theorem check_gcs_exists_iff_witness:
  "fst (check_gcs_exists ''raw-logs/2024/01/01.log'' ''abc123'' replicated_world) = Inr True \<and>
   fst (check_gcs_exists ''raw-logs/2024/01/01.log'' ''abc124'' replicated_world) = Inr False"
proof -
  have f: "faults replicated_world (remote_calls replicated_world) = None"
    "faults replicated_world (Suc (remote_calls replicated_world)) = None"
    by (simp_all add: replicated_world_eq)
  have b: "gcs_blobs replicated_world ''raw-logs/2024/01/01.log'' = Some replicated_blob"
    by (simp add: replicated_world_eq)
  have t: "stored_etag (blob_metadata replicated_blob) = Some ''abc123''"
    by (simp add: replicated_blob_def stored_etag_def)
  from check_gcs_exists_iff [of "''raw-logs/2024/01/01.log''" "''abc123''" replicated_world]
    f b t
  have same: "fst (check_gcs_exists ''raw-logs/2024/01/01.log'' ''abc123'' replicated_world) =
           Inr True"
    by auto
  from check_gcs_exists_iff [of "''raw-logs/2024/01/01.log''" "''abc124''" replicated_world]
    f b t
  have other: "fst (check_gcs_exists ''raw-logs/2024/01/01.log'' ''abc124'' replicated_world) =
           Inr False"
    by auto
  from same other show ?thesis by simp
qed



section \<open>The stream transfer\<close>

text \<open>
  Claim C7. After a transfer that returns, the blob under the destination key carries the
  metadata that was set on it before the upload: reading it back gives the source bucket
  under \<^verbatim>\<open>s3_bucket\<close>, the source key under \<^verbatim>\<open>s3_key\<close> and the normalised identity
  tag of the inspected metadata under \<^verbatim>\<open>s3_etag\<close>; the existence check reads that tag, and a
  \<^verbatim>\<open>blob.reload()\<close> that goes through returns this metadata.
\<close>

theorem stream_upload_provenance:
  assumes "stream_upload s3_bucket s3_key gcs_key s3_meta w = (Inr r, w')"
  shows "\<exists>blob metadata. gcs_blobs w' gcs_key = Some blob \<and> blob_metadata blob = Some metadata \<and>
     map_of metadata ''s3_bucket'' = Some s3_bucket \<and>
     map_of metadata ''s3_key'' = Some s3_key \<and>
     map_of metadata ''s3_etag'' = Some (etag s3_meta) \<and>
     stored_etag (blob_metadata blob) = Some (etag s3_meta) \<and>
     (faults w' (remote_calls w') = None \<longrightarrow> fst (blob_reload gcs_key w') = Inr (Some metadata))"
proof -
  from stream_upload_returns [OF assms] obtain obj where
    "s3_objects w (s3_bucket, s3_key) = Some obj \<and>
     gcs_blobs w' gcs_key =
             Some \<lparr>blob_metadata = Some [(''s3_etag'', etag s3_meta), (''s3_bucket'', s3_bucket),
                                        (''s3_key'', s3_key), (''replicated_at'', now w)],
                   blob_content_type = (case ContentType obj of
                                          None \<Rightarrow> ''application/octet-stream'' | Some t \<Rightarrow> t),
                   blob_data = Body obj\<rparr> \<and>
           remote_calls w' = remote_calls w + 2 \<and> faults w' = faults w"
    by (rule exE)
  then show ?thesis
    by (simp add: stored_etag_def blob_reload_def remote_def)
qed

theorem stream_upload_provenance_witness:
  "fst (stream_upload ''raw-logs'' ''2024/01/01.log'' ''raw-logs/2024/01/01.log''
          \<lparr>etag = ''abc123'', size_bytes = 4096, last_modified = None\<rparr> example_world) = Inr True \<and>
   (\<exists>blob metadata.
      gcs_blobs (snd (stream_upload ''raw-logs'' ''2024/01/01.log'' ''raw-logs/2024/01/01.log''
          \<lparr>etag = ''abc123'', size_bytes = 4096, last_modified = None\<rparr> example_world))
        ''raw-logs/2024/01/01.log'' = Some blob \<and>
      blob_metadata blob = Some metadata \<and>
      map_of metadata ''s3_bucket'' = Some ''raw-logs'' \<and>
      map_of metadata ''s3_key'' = Some ''2024/01/01.log'' \<and>
      map_of metadata ''s3_etag'' = Some ''abc123'')"
proof -
  let ?m = "\<lparr>etag = ''abc123'', size_bytes = 4096, last_modified = None\<rparr>"
  let ?r = "stream_upload ''raw-logs'' ''2024/01/01.log'' ''raw-logs/2024/01/01.log'' ?m
              example_world"
  have f: "fst ?r = Inr True" by (simp add: eval_defs)
  then have h: "?r = (Inr True, snd ?r)" by (metis prod.collapse)
  from stream_upload_provenance [OF h] f show ?thesis by auto
qed

text \<open>
  Claim C9. The stream transfer leaves as many read streams open as it found: when
  \<^verbatim>\<open>get_object\<close> returns, it has opened one, and the last thing the transfer does, whether
  the upload returns or raises, is to close it.
\<close>

theorem stream_upload_closes:
  "open_streams (snd (stream_upload s3_bucket s3_key gcs_key s3_meta w)) = open_streams w \<and>
   (\<forall>response w1. get_object s3_bucket s3_key w = (Inr response, w1) \<longrightarrow>
      open_streams w1 = Suc (open_streams w) \<and>
      last (trace (snd (stream_upload s3_bucket s3_key gcs_key s3_meta w))) = StreamClose)"
proof (cases "get_object s3_bucket s3_key w")
  case (Pair r w1)
  show ?thesis
  proof (cases r)
    case (Inl e)
    with Pair show ?thesis
      using get_object_open_streams [OF Pair] by (simp add: stream_upload_get_fails)
  next
    case (Inr response)
    let ?u = "upload_from_file gcs_key
             [(''s3_etag'', etag s3_meta), (''s3_bucket'', s3_bucket), (''s3_key'', s3_key),
              (''replicated_at'', now w1)]
             (Body response)
             (case ContentType response of None \<Rightarrow> ''application/octet-stream'' | Some t \<Rightarrow> t)
             w1"
    have o1: "open_streams w1 = Suc (open_streams w)"
      using get_object_open_streams [OF Pair] Inr by simp
    have o2: "open_streams (snd ?u) = Suc (open_streams w)"
      using o1 by (simp add: upload_from_file_open_streams)
    have "stream_upload s3_bucket s3_key gcs_key s3_meta w =
            (case ?u of (Inl e, w2) \<Rightarrow> (Inl e, stream_close w2)
                      | (Inr u, w2) \<Rightarrow> (Inr True, stream_close w2))"
      using Pair Inr by (simp add: stream_upload_after_get)
    then have "snd (stream_upload s3_bucket s3_key gcs_key s3_meta w) = stream_close (snd ?u)"
      by (cases ?u) (auto split: sum.splits)
    with o1 o2 Pair Inr show ?thesis by (simp add: stream_close_def)
  qed
qed

theorem stream_upload_closes_witness:
  "fst (get_object ''raw-logs'' ''2024/01/01.log'' upload_fails_world) = Inr example_object \<and>
   fst (stream_upload ''raw-logs'' ''2024/01/01.log'' ''raw-logs/2024/01/01.log''
          \<lparr>etag = ''abc123'', size_bytes = 4096, last_modified = None\<rparr> upload_fails_world) =
     Inl (GoogleAPIError ''ServiceUnavailable'') \<and>
   open_streams (snd (get_object ''raw-logs'' ''2024/01/01.log'' upload_fails_world)) = 1 \<and>
   open_streams (snd (stream_upload ''raw-logs'' ''2024/01/01.log'' ''raw-logs/2024/01/01.log''
          \<lparr>etag = ''abc123'', size_bytes = 4096, last_modified = None\<rparr> upload_fails_world)) = 0 \<and>
   last (trace (snd (stream_upload ''raw-logs'' ''2024/01/01.log'' ''raw-logs/2024/01/01.log''
          \<lparr>etag = ''abc123'', size_bytes = 4096, last_modified = None\<rparr> upload_fails_world))) =
     StreamClose"
proof -
  let ?m = "\<lparr>etag = ''abc123'', size_bytes = 4096, last_modified = None\<rparr>"
  let ?g = "get_object ''raw-logs'' ''2024/01/01.log'' upload_fails_world"
  have g: "fst ?g = Inr example_object" by (simp add: eval_defs)
  then have h: "?g = (Inr example_object, snd ?g)" by (metis prod.collapse)
  have r: "fst (stream_upload ''raw-logs'' ''2024/01/01.log'' ''raw-logs/2024/01/01.log'' ?m
             upload_fails_world) = Inl (GoogleAPIError ''ServiceUnavailable'')"
    by (simp add: eval_defs)
  have o: "open_streams upload_fails_world = 0" by (simp add: eval_defs)
  from stream_upload_closes [of "''raw-logs''" "''2024/01/01.log''" "''raw-logs/2024/01/01.log''"
      ?m upload_fails_world] h g r o
  show ?thesis by auto
qed

section \<open>The destination key\<close>

text \<open>
  Claim C8, as the code has it. The destination key is the bucket name, a slash and the
  source key. For bucket names that contain no slash, which is what the source store
  allows, two different pairs of bucket and key never get the same destination key.
\<close>

theorem gcs_key_of_injective:
  assumes "CHR ''/'' \<notin> set b1" and "CHR ''/'' \<notin> set b2" and "(b1, k1) \<noteq> (b2, k2)"
  shows "gcs_key_of b1 k1 \<noteq> gcs_key_of b2 k2"
proof
  assume "gcs_key_of b1 k1 = gcs_key_of b2 k2"
  then have eq: "b1 @ CHR ''/'' # k1 = b2 @ CHR ''/'' # k2"
    by (simp add: gcs_key_of_def)
  then have "takeWhile (\<lambda>c. c \<noteq> CHR ''/'') (b1 @ CHR ''/'' # k1) =
             takeWhile (\<lambda>c. c \<noteq> CHR ''/'') (b2 @ CHR ''/'' # k2)"
    by simp
  then have "b1 = b2"
    using takeWhile_slash [OF assms(1)] takeWhile_slash [OF assms(2)] by simp
  with eq have "k1 = k2" by simp
  with \<open>b1 = b2\<close> assms(3) show False by simp
qed

theorem gcs_key_of_injective_witness:
  "CHR ''/'' \<notin> set ''logs'' \<and> CHR ''/'' \<notin> set ''logs-eu'' \<and>
   (''logs'', ''eu/a.log'') \<noteq> (''logs-eu'', ''a.log'') \<and>
   gcs_key_of ''logs'' ''eu/a.log'' \<noteq> gcs_key_of ''logs-eu'' ''a.log''"
  using gcs_key_of_injective [of "''logs''" "''logs-eu''" "''eu/a.log''" "''a.log''"]
  by simp

text \<open>
  Claim C8, as it is stated for every pair of strings, fails: the function accepts any
  string as a bucket name, and a slash in it moves the boundary between bucket and key.
\<close>

theorem gcs_key_of_collision:
  "(''a'', ''b/c'') \<noteq> (''a/b'', ''c'') \<and> gcs_key_of ''a'' ''b/c'' = gcs_key_of ''a/b'' ''c''"
  by (simp add: gcs_key_of_def)

end
